theory Spec2Isabelle
  imports Main "HOL-Library.Sublist"
begin

section \<open>The Cool Tech Store web application (app.py)\<close>

text \<open>
  The program registers three view functions on a Flask application, configures the
  logging module once at import time and, when run as a script, starts the listener.
  The embedding keeps the source's names. What a view function returns is modelled as
  the Python value it returns (a body and a status code); what it does to the process
  is modelled by explicit state passing over a record of the mutable state the program
  owns or imports.
\<close>

subsection \<open>Logging (lines 3 and 8)\<close>

text \<open>The severities of the logging module, with their numeric values.\<close>

datatype level = DEBUG | INFO | WARNING | ERROR | CRITICAL

fun levelno :: "level \<Rightarrow> nat" where
  "levelno DEBUG = 10"
| "levelno INFO = 20"
| "levelno WARNING = 30"
| "levelno ERROR = 40"
| "levelno CRITICAL = 50"

record log_record =
  levelname :: level
  msg :: string

text \<open>
  The mutable state of the process as far as the program touches it: the threshold and
  the file name installed by \<^verbatim>\<open>logging.basicConfig\<close>, the records appended to that file
  so far, and the state of the generator of the imported \<^verbatim>\<open>random\<close> module.
\<close>

record world =
  root_level :: level
  log_filename :: string
  app_log :: "log_record list"
  rng_state :: nat

text \<open>
  \<^verbatim>\<open>logging.basicConfig(filename=..., level=...)\<close> on a process whose log file already
  holds \<open>old\<close> (the file is opened for appending) and whose generator was seeded
  with \<open>seed\<close> by \<^verbatim>\<open>import random\<close>.
\<close>

definition basicConfig :: "string \<Rightarrow> level \<Rightarrow> log_record list \<Rightarrow> nat \<Rightarrow> world" where
  "basicConfig fname lvl old seed =
     \<lparr>root_level = lvl, log_filename = fname, app_log = old, rng_state = seed\<rparr>"

text \<open>Line 8: the state after the module has been imported.\<close>

definition startup :: "log_record list \<Rightarrow> nat \<Rightarrow> world" where
  "startup old seed = basicConfig ''app.log'' INFO old seed"

text \<open>
  \<^verbatim>\<open>app.logger.info\<close> and \<^verbatim>\<open>app.logger.error\<close>: the application's logger has no
  threshold of its own, so a record is emitted when its severity reaches the
  configured one, and is then appended to the file. The call returns nothing and lets
  no exception out.
\<close>

definition logger_log :: "level \<Rightarrow> string \<Rightarrow> world \<Rightarrow> world" where
  "logger_log lvl m w =
     (if levelno (root_level w) \<le> levelno lvl
      then w\<lparr>app_log := app_log w @ [\<lparr>levelname = lvl, msg = m\<rparr>]\<rparr>
      else w)"

definition logger_info :: "string \<Rightarrow> world \<Rightarrow> world" where
  "logger_info m w = logger_log INFO m w"

definition logger_error :: "string \<Rightarrow> world \<Rightarrow> world" where
  "logger_error m w = logger_log ERROR m w"

subsection \<open>The view functions (lines 10 to 22)\<close>

text \<open>
  A view function returns a string or a dictionary, paired with a status code. A
  Python call either returns a value or raises.
\<close>

datatype body = Text string | Dict "(string \<times> string) list"

type_synonym response = "body \<times> int"

datatype 'a outcome = Return 'a | Raise string

definition home :: "world \<Rightarrow> response outcome \<times> world" where
  "home w =
     (let w' = logger_info ''Homepage visited'' w
      in (Return (Text ''Welcome to Cool Tech Store!'', 200), w'))"

definition error :: "world \<Rightarrow> response outcome \<times> world" where
  "error w =
     (let w' = logger_error ''An error occurred!'' w
      in (Return (Text ''Something went wrong!'', 500), w'))"

definition health :: "world \<Rightarrow> response outcome \<times> world" where
  "health w = (Return (Dict [(''status'', ''healthy'')], 200), w)"

subsection \<open>Routing (the decorators of lines 10, 15 and 20)\<close>

record request =
  req_method :: string
  req_path :: string
  query_string :: string
  req_headers :: "(string \<times> string) list"
  req_data :: string

datatype endpoint = Home | Error | Health

text \<open>The rules registered by \<^verbatim>\<open>@app.route\<close>, in the order of the source.\<close>

definition url_map :: "(string \<times> endpoint) list" where
  "url_map = [(''/'', Home), (''/error'', Error), (''/health'', Health)]"

fun view_function :: "endpoint \<Rightarrow> world \<Rightarrow> response outcome \<times> world" where
  "view_function Home w = home w"
| "view_function Error w = error w"
| "view_function Health w = health w"

text \<open>
  A GET request whose path is one of the registered rules is matched to its endpoint.
  The result \<open>None\<close> stands for every request the program registers nothing for: what
  happens then is the framework's default, and no view function of the program runs.
\<close>

definition match_request :: "request \<Rightarrow> endpoint option" where
  "match_request req =
     (if req_method req = ''GET'' then map_of url_map (req_path req) else None)"

definition dispatch_request :: "request \<Rightarrow> world \<Rightarrow> (response outcome \<times> world) option" where
  "dispatch_request req w =
     (case match_request req of
        None \<Rightarrow> None
      | Some e \<Rightarrow> Some (view_function e w))"

text \<open>A GET request for path \<open>p\<close>, whatever its query string, headers and payload.\<close>

abbreviation get_request ::
  "string \<Rightarrow> string \<Rightarrow> (string \<times> string) list \<Rightarrow> string \<Rightarrow> request" where
  "get_request p q hs d \<equiv>
     \<lparr>req_method = ''GET'', req_path = p, query_string = q, req_headers = hs, req_data = d\<rparr>"

text \<open>The state after a sequence of requests has been handled, one after the other.\<close>

fun serve :: "request list \<Rightarrow> world \<Rightarrow> world" where
  "serve [] w = w"
| "serve (req # reqs) w =
     serve reqs (case dispatch_request req w of None \<Rightarrow> w | Some (r, w') \<Rightarrow> w')"

subsection \<open>The entry point (lines 24 and 25)\<close>

record listener =
  host :: string
  port :: int

record process_env =
  argv :: "string list"
  environ :: "(string \<times> string) list"

definition app_run :: "string \<Rightarrow> int \<Rightarrow> listener" where
  "app_run h p = \<lparr>host = h, port = p\<rparr>"

text \<open>
  The guarded call at the end of the module: \<open>name\<close> is the value of \<^verbatim>\<open>__name__\<close>; the
  listener is started only when the module is the script being run.
\<close>

definition module_main :: "string \<Rightarrow> process_env \<Rightarrow> listener option" where
  "module_main name env =
     (if name = ''__main__'' then Some (app_run ''0.0.0.0'' 5000) else None)"

section \<open>Invariants of the state\<close>

lemma logger_log_frame:
  "root_level (logger_log lvl m w) = root_level w"
  "log_filename (logger_log lvl m w) = log_filename w"
  "rng_state (logger_log lvl m w) = rng_state w"
  by (simp_all add: logger_log_def)

lemma view_function_frame:
  "root_level (snd (view_function e w)) = root_level w"
  "log_filename (snd (view_function e w)) = log_filename w"
  "rng_state (snd (view_function e w)) = rng_state w"
  by (cases e; simp add: home_def error_def health_def logger_info_def logger_error_def
        logger_log_frame)+

lemma dispatch_request_frame:
  assumes "dispatch_request req w = Some (r, w')"
  shows "root_level w' = root_level w"
    and "log_filename w' = log_filename w"
    and "rng_state w' = rng_state w"
proof -
  from assms obtain e where "view_function e w = (r, w')"
    by (auto simp: dispatch_request_def split: option.splits)
  then have "w' = snd (view_function e w)" by simp
  then show "root_level w' = root_level w" and "log_filename w' = log_filename w"
    and "rng_state w' = rng_state w"
    by (simp_all add: view_function_frame)
qed

lemma serve_frame:
  "root_level (serve reqs w) = root_level w \<and>
   log_filename (serve reqs w) = log_filename w \<and>
   rng_state (serve reqs w) = rng_state w"
proof (induction reqs arbitrary: w)
  case Nil
  show ?case by simp
next
  case (Cons req reqs)
  show ?case
  proof (cases "dispatch_request req w")
    case None
    then show ?thesis using Cons.IH [of w] by simp
  next
    case (Some p)
    obtain r w' where p: "p = (r, w')" by (cases p)
    with Some have "dispatch_request req w = Some (r, w')" by simp
    from dispatch_request_frame [OF this] Cons.IH [of w'] Some p
    show ?thesis by simp
  qed
qed

lemma root_level_reachable:
  "root_level (serve reqs (startup old seed)) = INFO"
  using serve_frame [of reqs "startup old seed"]
  by (simp add: startup_def basicConfig_def)

lemma home_reachable:
  "home (serve reqs (startup old seed)) =
     (Return (Text ''Welcome to Cool Tech Store!'', 200),
      (serve reqs (startup old seed))
        \<lparr>app_log := app_log (serve reqs (startup old seed))
           @ [\<lparr>levelname = INFO, msg = ''Homepage visited''\<rparr>]\<rparr>)"
  by (simp add: home_def logger_info_def logger_log_def root_level_reachable)

lemma error_reachable:
  "error (serve reqs (startup old seed)) =
     (Return (Text ''Something went wrong!'', 500),
      (serve reqs (startup old seed))
        \<lparr>app_log := app_log (serve reqs (startup old seed))
           @ [\<lparr>levelname = ERROR, msg = ''An error occurred!''\<rparr>]\<rparr>)"
  by (simp add: error_def logger_error_def logger_log_def root_level_reachable)

lemma view_function_response:
  "fst (view_function e w) =
     Return (case e of
               Home \<Rightarrow> (Text ''Welcome to Cool Tech Store!'', 200)
             | Error \<Rightarrow> (Text ''Something went wrong!'', 500)
             | Health \<Rightarrow> (Dict [(''status'', ''healthy'')], 200))"
  by (cases e) (simp_all add: home_def error_def health_def)

lemma view_function_only_log:
  "(snd (view_function e w))\<lparr>app_log := app_log w\<rparr> = w"
  by (cases e) (simp_all add: home_def error_def health_def logger_info_def
        logger_error_def logger_log_def)

lemma dispatch_get_request:
  "dispatch_request (get_request ''/'' q hs d) w = Some (home w)"
  "dispatch_request (get_request ''/error'' q hs d) w = Some (error w)"
  "dispatch_request (get_request ''/health'' q hs d) w = Some (health w)"
  by (simp_all add: dispatch_request_def match_request_def url_map_def)

section \<open>The responses of the three routes\<close>

text \<open>
  Claim C1. In every state and for every GET request for the path \<open>/\<close>, whatever its
  query string, headers and payload, the view function \<open>home\<close> is the one invoked and
  it returns the body \<open>Welcome to Cool Tech Store!\<close> with the status code 200.
\<close>

theorem home_response:
  "fst (home w) = Return (Text ''Welcome to Cool Tech Store!'', 200) \<and>
   map_option fst (dispatch_request (get_request ''/'' q hs d) w)
     = Some (Return (Text ''Welcome to Cool Tech Store!'', 200))"
  by (simp add: dispatch_get_request home_def)

text \<open>
  Claim C2. In every state and for every GET request for the path \<open>/error\<close>, the view
  function \<open>error\<close> is the one invoked and it returns the body
  \<open>Something went wrong!\<close> with the status code 500.
\<close>

theorem error_response:
  "fst (error w) = Return (Text ''Something went wrong!'', 500) \<and>
   map_option fst (dispatch_request (get_request ''/error'' q hs d) w)
     = Some (Return (Text ''Something went wrong!'', 500))"
  by (simp add: dispatch_get_request error_def)

text \<open>
  Claim C3. In every state and for every GET request for the path \<open>/health\<close>, the view
  function \<open>health\<close> is the one invoked and it returns the dictionary with the single
  key \<open>status\<close> bound to \<open>healthy\<close>, with the status code 200.
\<close>

theorem health_response:
  "fst (health w) = Return (Dict [(''status'', ''healthy'')], 200) \<and>
   map_option fst (dispatch_request (get_request ''/health'' q hs d) w)
     = Some (Return (Dict [(''status'', ''healthy'')], 200))"
  by (simp add: dispatch_get_request health_def)

section \<open>The log records of the three routes\<close>

text \<open>
  Claim C4. In every state the running program can be in (the state after start-up,
  followed by any sequence of requests), handling a GET request for \<open>/\<close> appends
  exactly one record to the log, of severity INFO and with a message containing
  \<open>Homepage visited\<close>; handling one for \<open>/error\<close> appends exactly one record, of
  severity ERROR and with a message containing \<open>An error occurred!\<close>; handling one
  for \<open>/health\<close> leaves the log as it was. The records are those the program's own
  code emits.
\<close>

theorem log_records_per_route:
  "(let w = serve reqs (startup old seed) in
      map_option (app_log \<circ> snd) (dispatch_request (get_request ''/'' q hs d) w)
        = Some (app_log w @ [\<lparr>levelname = INFO, msg = ''Homepage visited''\<rparr>]) \<and>
      map_option (app_log \<circ> snd) (dispatch_request (get_request ''/error'' q hs d) w)
        = Some (app_log w @ [\<lparr>levelname = ERROR, msg = ''An error occurred!''\<rparr>]) \<and>
      map_option (app_log \<circ> snd) (dispatch_request (get_request ''/health'' q hs d) w)
        = Some (app_log w)) \<and>
   sublist ''Homepage visited'' (msg \<lparr>levelname = INFO, msg = ''Homepage visited''\<rparr>) \<and>
   sublist ''An error occurred!'' (msg \<lparr>levelname = ERROR, msg = ''An error occurred!''\<rparr>)"
  by (simp add: Let_def dispatch_get_request home_reachable error_reachable health_def)

text \<open>
  Claim C7 says that each of the three view functions emits exactly one log record per
  request. The view function \<open>health\<close> emits none: after it has run on the state at
  start-up with an empty log, the log still has no record.
\<close>

theorem health_emits_no_record:
  "length (app_log (snd (health (startup [] 0)))) = 0 \<and>
   length (app_log (snd (health (startup [] 0)))) \<noteq> length (app_log (startup [] 0)) + 1"
  by (simp add: health_def startup_def basicConfig_def)

text \<open>
  Claim C7, as the code has it. In every state the running program can be in, the view
  functions \<open>home\<close> and \<open>error\<close> each make the log longer by exactly one record, and
  the view function \<open>health\<close> leaves its length unchanged.
\<close>

theorem log_record_count:
  "(let w = serve reqs (startup old seed) in
      length (app_log (snd (view_function e w)))
        = length (app_log w) + (if e = Health then 0 else 1))"
  by (cases e) (simp_all add: Let_def home_reachable error_reachable health_def)

section \<open>Determinism and independence of the request\<close>

text \<open>
  Claim C5. Every view function is deterministic and idempotent. In any two states at
  all it returns the same body and status code; called again on the state it has left,
  or after any further sequence of requests, it returns the same body and status code
  once more. A call carries no state over to the next: apart from the records written
  to the log, the state it returns is the state it was given, so the logging
  configuration and the state of the random generator are neither read for the
  response nor changed. In any two states the running program can be in, whatever the
  histories of requests, the earlier logs and the seeds of the generator, the records
  it writes are the same too: one fixed record for \<open>home\<close> and for \<open>error\<close>, none
  for \<open>health\<close>.
\<close>

theorem handlers_deterministic:
  "fst (view_function e w1) = fst (view_function e w2) \<and>
   fst (view_function e (snd (view_function e w1))) = fst (view_function e w1) \<and>
   fst (view_function e (serve reqs w1)) = fst (view_function e w1) \<and>
   (snd (view_function e w1))\<lparr>app_log := app_log w1\<rparr> = w1 \<and>
   rng_state (snd (view_function e w1)) = rng_state w1 \<and>
   root_level (snd (view_function e w1)) = root_level w1 \<and>
   log_filename (snd (view_function e w1)) = log_filename w1 \<and>
   (let r1 = serve reqs1 (startup old1 seed1); r2 = serve reqs2 (startup old2 seed2);
        emitted = (case e of
                     Home \<Rightarrow> [\<lparr>levelname = INFO, msg = ''Homepage visited''\<rparr>]
                   | Error \<Rightarrow> [\<lparr>levelname = ERROR, msg = ''An error occurred!''\<rparr>]
                   | Health \<Rightarrow> [])
    in snd (view_function e r1) = r1\<lparr>app_log := app_log r1 @ emitted\<rparr> \<and>
       snd (view_function e r2) = r2\<lparr>app_log := app_log r2 @ emitted\<rparr>)"
proof -
  have "let r1 = serve reqs1 (startup old1 seed1); r2 = serve reqs2 (startup old2 seed2);
        emitted = (case e of
                     Home \<Rightarrow> [\<lparr>levelname = INFO, msg = ''Homepage visited''\<rparr>]
                   | Error \<Rightarrow> [\<lparr>levelname = ERROR, msg = ''An error occurred!''\<rparr>]
                   | Health \<Rightarrow> [])
    in snd (view_function e r1) = r1\<lparr>app_log := app_log r1 @ emitted\<rparr> \<and>
       snd (view_function e r2) = r2\<lparr>app_log := app_log r2 @ emitted\<rparr>"
    by (cases e) (simp_all add: Let_def home_reachable error_reachable health_def)
  then show ?thesis
    by (simp add: view_function_response view_function_only_log view_function_frame)
qed

text \<open>
  Claim C10. Two requests that are routed to the same view function get the same body
  and status code, whatever their query strings, headers and payloads are and whatever
  the two states are in which they are handled; and they do get a response.
\<close>

theorem response_independent_of_request:
  "match_request r1 = Some e \<Longrightarrow> match_request r2 = Some e \<Longrightarrow>
   map_option fst (dispatch_request r1 w1) = map_option fst (dispatch_request r2 w2) \<and>
   map_option fst (dispatch_request r1 w1) \<noteq> None"
  by (cases e) (simp_all add: dispatch_request_def home_def error_def health_def)

text \<open>
  Two GET requests for \<open>/error\<close> that differ in query string, headers and payload,
  handled in two different states.
\<close>

theorem response_independent_of_request_witness:
  "match_request \<lparr>req_method = ''GET'', req_path = ''/error'', query_string = ''id=1'',
      req_headers = [(''Accept'', ''text/html'')], req_data = ''''\<rparr> = Some Error \<and>
   match_request \<lparr>req_method = ''GET'', req_path = ''/error'', query_string = ''debug=true'',
      req_headers = [], req_data = ''payload''\<rparr> = Some Error \<and>
   map_option fst (dispatch_request \<lparr>req_method = ''GET'', req_path = ''/error'',
      query_string = ''id=1'', req_headers = [(''Accept'', ''text/html'')], req_data = ''''\<rparr>
      (startup [] 7))
   = map_option fst (dispatch_request \<lparr>req_method = ''GET'', req_path = ''/error'',
      query_string = ''debug=true'', req_headers = [], req_data = ''payload''\<rparr>
      (startup [\<lparr>levelname = INFO, msg = ''Homepage visited''\<rparr>] 11))"
proof -
  let ?r1 = "\<lparr>req_method = ''GET'', req_path = ''/error'', query_string = ''id=1'',
      req_headers = [(''Accept'', ''text/html'')], req_data = ''''\<rparr>"
  let ?r2 = "\<lparr>req_method = ''GET'', req_path = ''/error'', query_string = ''debug=true'',
      req_headers = [], req_data = ''payload''\<rparr>"
  have m1: "match_request ?r1 = Some Error"
    by (simp add: match_request_def url_map_def)
  have m2: "match_request ?r2 = Some Error"
    by (simp add: match_request_def url_map_def)
  from response_independent_of_request [OF m1 m2] m1 m2 show ?thesis by simp
qed

section \<open>No view function raises\<close>

text \<open>
  Claim C6. The view function \<open>error\<close> returns normally in every state: its outcome is
  never a raised exception. In every state the running program can be in, a GET
  request for \<open>/error\<close> gets the fixed body with the status code 500, and the only
  change of the state is the fixed record of severity ERROR appended to the log; none
  of this depends on the request or on what was handled before.
\<close>

theorem error_returns_normally:
  "(\<forall>x. fst (error w0) \<noteq> Raise x) \<and>
   (let w = serve reqs (startup old seed) in
      dispatch_request (get_request ''/error'' q hs d) w
        = Some (Return (Text ''Something went wrong!'', 500),
                w\<lparr>app_log := app_log w @ [\<lparr>levelname = ERROR, msg = ''An error occurred!''\<rparr>]\<rparr>))"
  by (simp add: Let_def dispatch_get_request error_reachable) (simp add: error_def)

text \<open>
  Claim C9. Each of the three view functions, run in any state at all, returns its
  fixed pair of body and status code, and its outcome is never a raised exception.
\<close>

theorem view_functions_total:
  "fst (view_function e w) =
     Return (case e of
               Home \<Rightarrow> (Text ''Welcome to Cool Tech Store!'', 200)
             | Error \<Rightarrow> (Text ''Something went wrong!'', 500)
             | Health \<Rightarrow> (Dict [(''status'', ''healthy'')], 200)) \<and>
   (\<forall>x. fst (view_function e w) \<noteq> Raise x)"
  by (cases e) (simp_all add: home_def error_def health_def)

section \<open>The listener\<close>

text \<open>
  Claim C8. Run as a script, the module starts the listener on the host \<open>0.0.0.0\<close>
  (all interfaces) and the port 5000, whatever the command line and the environment
  of the process are.
\<close>

theorem listener_fixed:
  "module_main ''__main__'' env = Some \<lparr>host = ''0.0.0.0'', port = 5000\<rparr>"
  by (simp add: module_main_def app_run_def)

end
